theory Spec2Isabelle
  imports Complex_Main "HOL-Library.FSet"
begin

section \<open>JavaScript values the client computes with\<close>

text \<open>
  A JavaScript string is modelled as a \<^typ>\<open>string\<close> whose characters are the code
  units below 256. The white space and line terminator code units in that range are
  TAB, LF, VT, FF, CR, SP and NBSP (U+00A0); \<open>String.prototype.trim\<close> and
  \<open>parseFloat\<close> strip exactly these.
\<close>

definition is_white_space :: "char \<Rightarrow> bool" where
  "is_white_space c = (of_char c \<in> set [9, 10, 11, 12, 13, 32, 160 :: nat])"

definition trim :: "string \<Rightarrow> string" where
  "trim s = rev (dropWhile is_white_space (rev (dropWhile is_white_space s)))"

text \<open>
  A Number is NaN, an infinity or a finite value. The finite values are kept as
  rationals; the rounding of a mathematical value to the nearest double (the
  "Number value for" of ECMA-262) is not fixed here but passed to \<open>parseFloat\<close>
  as the parameter \<open>nv\<close>, so every statement below holds for any rounding.
\<close>

datatype jsnum = NaN | NegInf | Fin rat | PosInf

text \<open>The relational operator \<open>a >= b\<close> on Numbers: false as soon as one side is NaN.\<close>

fun js_ge :: "jsnum \<Rightarrow> jsnum \<Rightarrow> bool" where
  "js_ge NaN b = False"
| "js_ge a NaN = False"
| "js_ge PosInf b = True"
| "js_ge a NegInf = True"
| "js_ge NegInf b = False"
| "js_ge a PosInf = False"
| "js_ge (Fin a) (Fin b) = (b \<le> a)"

definition is_digit :: "char \<Rightarrow> bool" where
  "is_digit c = (48 \<le> (of_char c :: nat) \<and> (of_char c :: nat) \<le> 57)"

definition digit_value :: "char \<Rightarrow> nat" where
  "digit_value c = of_char c - 48"

definition digits_value :: "string \<Rightarrow> nat" where
  "digits_value ds = foldl (\<lambda>n c. 10 * n + digit_value c) 0 ds"

text \<open>
  The optional ExponentPart standing at the head of \<open>r\<close>: \<open>e\<close> or \<open>E\<close>, an optional
  sign and at least one digit. Where no complete exponent stands there, the literal ends
  before it and the exponent is 0.
\<close>

definition exponent_digits :: "string \<Rightarrow> int \<Rightarrow> int" where
  "exponent_digits r sign =
     (let ds = takeWhile is_digit r in if ds = [] then 0 else sign * int (digits_value ds))"

definition parse_exponent :: "string \<Rightarrow> int" where
  "parse_exponent r =
     (case r of
        [] \<Rightarrow> 0
      | c # r' \<Rightarrow>
          if c = CHR ''e'' \<or> c = CHR ''E'' then
            (case r' of
               [] \<Rightarrow> 0
             | s # r'' \<Rightarrow>
                 if s = CHR ''+'' then exponent_digits r'' 1
                 else if s = CHR ''-'' then exponent_digits r'' (- 1)
                 else exponent_digits r' 1)
          else 0)"

definition scale10 :: "rat \<Rightarrow> int \<Rightarrow> rat" where
  "scale10 m e = (if 0 \<le> e then m * 10 ^ nat e else m / 10 ^ nat (- e))"

text \<open>
  The built-in \<open>parseFloat\<close> (ECMA-262, 19.2.4): leading white space is dropped, the
  longest prefix that is a StrDecimalLiteral is read (a sign, then \<open>Infinity\<close> or
  digits with an optional fraction and exponent), and what follows is ignored. With no
  such prefix the result is NaN.
\<close>

definition parseFloat :: "(rat \<Rightarrow> jsnum) \<Rightarrow> string \<Rightarrow> jsnum" where
  "parseFloat nv inputString =
     (let trimmed = dropWhile is_white_space inputString;
          neg = (take 1 trimmed = ''-'');
          rest = (if take 1 trimmed = ''-'' \<or> take 1 trimmed = ''+'' then drop 1 trimmed
                  else trimmed)
      in if take 8 rest = ''Infinity'' then (if neg then NegInf else PosInf)
         else
           let ip = takeWhile is_digit rest;
               r1 = dropWhile is_digit rest;
               dot = (take 1 r1 = ''.'');
               fp = (if dot then takeWhile is_digit (drop 1 r1) else []);
               r2 = (if dot then dropWhile is_digit (drop 1 r1) else r1)
           in if ip = [] \<and> fp = [] then NaN
              else
                let m = of_nat (digits_value (ip @ fp)) / 10 ^ length fp;
                    v = scale10 m (parse_exponent r2)
                in nv (if neg then - v else v))"

text \<open>
  The logical OR of a possibly missing string with a default, \<open>v || d\<close>: the default
  is taken when \<open>v\<close> is falsy, that is undefined or null (\<open>None\<close>) or the empty
  string.
\<close>

definition or_string :: "string option \<Rightarrow> string \<Rightarrow> string" where
  "or_string v d = (case v of None \<Rightarrow> d | Some s \<Rightarrow> if s = [] then d else s)"

text \<open>
  \<open>v || d\<close> on a possibly missing integral Number: the default is taken for
  undefined (\<open>None\<close>) and for 0.
\<close>

definition or_number :: "int option \<Rightarrow> int \<Rightarrow> int" where
  "or_number v d = (case v of None \<Rightarrow> d | Some n \<Rightarrow> if n = 0 then d else n)"

text \<open>
  An integral Number put into a template literal: its decimal digits, with a minus sign
  when negative. This is what \<open>Number::toString\<close> writes for a safe integer, one of
  absolute value below \<open>2^53\<close>. Above, not every integer is a Number, the digits written
  are the shortest that round to it (\<open>2^64\<close> is written \<open>18446744073709552000\<close>), and
  from \<open>10^21\<close> on the notation has an exponent; such Numbers are outside this model,
  and what is stated of a request names its bound.
\<close>

fun nat_digits :: "nat \<Rightarrow> string" where
  "nat_digits n =
     (if n < 10 then [''0123456789'' ! n]
      else nat_digits (n div 10) @ [''0123456789'' ! (n mod 10)])"

definition Number_toString :: "int \<Rightarrow> string" where
  "Number_toString i = (if i < 0 then CHR ''-'' # nat_digits (nat (- i)) else nat_digits (nat i))"

definition safe_integer :: "int \<Rightarrow> bool" where
  "safe_integer i = (\<bar>i\<bar> < 2 ^ 53)"

text \<open>A dimension handed to \<open>api.buildGraph\<close>: absent, or a safe integer.\<close>

definition safe_dimension :: "int option \<Rightarrow> bool" where
  "safe_dimension d = (case d of None \<Rightarrow> True | Some n \<Rightarrow> safe_integer n)"

text \<open>
  \<open>encodeURIComponent\<close>: letters, digits and \<open>- _ . ! ~ * ' ( )\<close> stay, every other
  code unit is written as the percent-escaped bytes of its UTF-8 encoding (one byte
  below 128, two bytes from 128 to 255).
\<close>

definition hex_digit :: "nat \<Rightarrow> char" where
  "hex_digit n = ''0123456789ABCDEF'' ! n"

definition percent_byte :: "nat \<Rightarrow> string" where
  "percent_byte b = [CHR ''%'', hex_digit (b div 16), hex_digit (b mod 16)]"

definition uri_unreserved :: "char \<Rightarrow> bool" where
  "uri_unreserved c =
     (let n = (of_char c :: nat)
      in (65 \<le> n \<and> n \<le> 90) \<or> (97 \<le> n \<and> n \<le> 122) \<or> (48 \<le> n \<and> n \<le> 57) \<or>
         n \<in> set [45, 95, 46, 33, 126, 42, 39, 40, 41])"

definition encode_unit :: "char \<Rightarrow> string" where
  "encode_unit c =
     (let n = (of_char c :: nat)
      in if uri_unreserved c then [c]
         else if n < 128 then percent_byte n
         else percent_byte (192 + n div 64) @ percent_byte (128 + n mod 64))"

definition encodeURIComponent :: "string \<Rightarrow> string" where
  "encodeURIComponent s = concat (map encode_unit s)"

text \<open>
  \<open>JSON.stringify\<close> of an object whose values are strings: the members in the object's
  order, every string quoted, with the quote, the backslash and the control characters
  escaped.
\<close>

definition hex_lower :: "nat \<Rightarrow> char" where
  "hex_lower n = ''0123456789abcdef'' ! n"

definition json_escape :: "char \<Rightarrow> string" where
  "json_escape c =
     (let n = (of_char c :: nat)
      in if n = 34 then [CHR 0x5C, CHR 0x22]
         else if n = 92 then [CHR 0x5C, CHR 0x5C]
         else if n = 8 then [CHR 0x5C, CHR ''b'']
         else if n = 12 then [CHR 0x5C, CHR ''f'']
         else if n = 10 then [CHR 0x5C, CHR ''n'']
         else if n = 13 then [CHR 0x5C, CHR ''r'']
         else if n = 9 then [CHR 0x5C, CHR ''t'']
         else if n < 32 then
           [CHR 0x5C, CHR ''u'', CHR ''0'', CHR ''0'', hex_lower (n div 16), hex_lower (n mod 16)]
         else [c])"

definition json_quote :: "string \<Rightarrow> string" where
  "json_quote s = CHR 0x22 # concat (map json_escape s) @ [CHR 0x22]"

fun json_members :: "(string \<times> string) list \<Rightarrow> string" where
  "json_members [] = []"
| "json_members [(k, v)] = json_quote k @ '':'' @ json_quote v"
| "json_members ((k, v) # kvs) = json_quote k @ '':'' @ json_quote v @ '','' @ json_members kvs"

definition JSON_stringify :: "(string \<times> string) list \<Rightarrow> string" where
  "JSON_stringify obj = ''{'' @ json_members obj @ ''}''"

text \<open>
  Reading such a text back, as \<open>JSON.parse\<close> reads an object of strings that is written
  without white space. A string runs to the first quote that no backslash escapes; the
  escapes (a backslash before a quote, a backslash, a slash, or one of \<open>b f n r t\<close>, and
  \<open>u\<close> with four hex digits, here for code units below 256) are undone, and a bare
  control character is refused. The members are \<open>"key":"value"\<close>, separated by commas,
  between braces. \<open>read_members\<close> counts down from the length of the text.
\<close>

definition hex_value :: "char \<Rightarrow> nat option" where
  "hex_value c =
     (let n = (of_char c :: nat)
      in if 48 \<le> n \<and> n \<le> 57 then Some (n - 48)
         else if 97 \<le> n \<and> n \<le> 102 then Some (n - 87)
         else if 65 \<le> n \<and> n \<le> 70 then Some (n - 55)
         else None)"

definition simple_escape :: "char \<Rightarrow> char option" where
  "simple_escape e =
     (if e = CHR 0x22 then Some (CHR 0x22)
      else if e = CHR 0x5C then Some (CHR 0x5C)
      else if e = CHR ''/'' then Some (CHR ''/'')
      else if e = CHR ''b'' then Some (CHR 0x08)
      else if e = CHR ''f'' then Some (CHR 0x0C)
      else if e = CHR ''n'' then Some (CHR 0x0A)
      else if e = CHR ''r'' then Some (CHR 0x0D)
      else if e = CHR ''t'' then Some (CHR 0x09)
      else None)"

definition unicode_escape :: "string \<Rightarrow> char option" where
  "unicode_escape hs =
     (case map hex_value hs of
        [Some a, Some b, Some c, Some d] \<Rightarrow>
          let n = ((a * 16 + b) * 16 + c) * 16 + d
          in if n < 256 then Some (char_of n) else None
      | _ \<Rightarrow> None)"

fun read_string :: "string \<Rightarrow> (string \<times> string) option" where
  "read_string [] = None"
| "read_string (c # cs) =
     (if c = CHR 0x22 then Some ([], cs)
      else if c = CHR 0x5C then
        (case cs of
           [] \<Rightarrow> None
         | e # r \<Rightarrow>
             if e = CHR ''u'' then
               (case unicode_escape (take 4 r) of
                  None \<Rightarrow> None
                | Some ch \<Rightarrow> map_option (\<lambda>(s, t). (ch # s, t)) (read_string (drop 4 r)))
             else
               (case simple_escape e of
                  None \<Rightarrow> None
                | Some ch \<Rightarrow> map_option (\<lambda>(s, t). (ch # s, t)) (read_string r)))
      else if (of_char c :: nat) < 32 then None
      else map_option (\<lambda>(s, t). (c # s, t)) (read_string cs))"

definition read_member :: "string \<Rightarrow> ((string \<times> string) \<times> string) option" where
  "read_member u =
     (case u of
        [] \<Rightarrow> None
      | c # u1 \<Rightarrow>
          if c \<noteq> CHR 0x22 then None
          else
            (case read_string u1 of
               None \<Rightarrow> None
             | Some (k, u2) \<Rightarrow>
                 if take 2 u2 \<noteq> [CHR '':'', CHR 0x22] then None
                 else
                   (case read_string (drop 2 u2) of
                      None \<Rightarrow> None
                    | Some (v, u3) \<Rightarrow> Some ((k, v), u3))))"

fun read_members :: "nat \<Rightarrow> string \<Rightarrow> (string \<times> string) list option" where
  "read_members 0 u = None"
| "read_members (Suc fuel) u =
     (case read_member u of
        None \<Rightarrow> None
      | Some (kv, rest) \<Rightarrow>
          if rest = ''}'' then Some [kv]
          else if take 1 rest = '','' then map_option ((#) kv) (read_members fuel (drop 1 rest))
          else None)"

definition JSON_read_object :: "string \<Rightarrow> (string \<times> string) list option" where
  "JSON_read_object json =
     (if take 1 json \<noteq> ''{'' then None
      else if drop 1 json = ''}'' then Some []
      else read_members (length json) (drop 1 json))"

section \<open>The graph payload\<close>

text \<open>
  The nodes and edges of the \<open>build_graph\<close> response, as the client reads them: a
  node is \<open>{id, data: {label, year, abstract, citationCount, isSeed}, position: {x, y}}\<close>,
  an edge is \<open>{source, target, label}\<close>. A field the client tests for presence is an
  option.
\<close>

record node_data =
  label :: string
  year :: "int option"
  abstract :: "string option"
  citationCount :: nat
  isSeed :: bool

record node =
  node_id :: string
  data :: node_data
  position :: "real \<times> real"

record edge =
  source :: string
  target :: string
  label :: "string option"

record graph_payload =
  nodes :: "node list"
  edges :: "edge list"

section \<open>The API client\<close>

definition API_BASE_URL :: string where
  "API_BASE_URL = ''http://localhost:8000''"

text \<open>
  A call of \<open>fetch\<close> goes out as a request (the method is GET unless the call names
  one) and comes back either rejected (no response at all) or as a response with its
  status and its body; the body is kept as what \<open>response.json()\<close> makes of it,
  \<open>None\<close> when it is not JSON. \<open>response.ok\<close> is a status from 200 to 299.
\<close>

datatype http_method = GET | POST

record request =
  request_method :: http_method
  url :: string
  headers :: "(string \<times> string) list"
  body :: "string option"

datatype 'a fetch_outcome = Rejected | Response nat "'a option"

datatype js_error = Error string | TypeError | SyntaxError

definition ok :: "nat \<Rightarrow> bool" where
  "ok status = (200 \<le> status \<and> status \<le> 299)"

text \<open>
  Every function of \<open>api\<close> awaits one \<open>fetch\<close>, throws on a response that is not
  ok and returns the parsed body otherwise. The model returns the request issued next to
  the result, an error (\<open>Inl\<close>) where the JavaScript throws.
  \<^verbatim>\<open>
  search: async (query) => {
      const response = await fetch(`${API_BASE_URL}/search?query=${encodeURIComponent(query)}`);
      if (!response.ok) throw new Error("Search failed");
      return response.json();
  },
  buildGraph: async (paperId, width, height) => {
      const w = width || 1000;
      const h = height || 1000;
      const response = await fetch(`${API_BASE_URL}/build_graph?paper_id=${paperId}&width=${w}&height=${h}`);
      if (!response.ok) throw new Error("Failed to build graph");
      return response.json();
  },
  summarizeConnection: async (sourceAbstract, targetAbstract) => {
      const response = await fetch(`${API_BASE_URL}/summarize_connection`, {
          method: "POST",
          headers: { "Content-Type": "application/json" },
          body: JSON.stringify({ source_abstract: sourceAbstract, target_abstract: targetAbstract }),
      });
      if (!response.ok) throw new Error("Summarization failed");
      return response.json();
  },
  \<close>
\<close>

definition search :: "(request \<Rightarrow> 'a fetch_outcome) \<Rightarrow> string \<Rightarrow> request \<times> (js_error + 'a)" where
  "search fetch query =
     (let rq = \<lparr>request_method = GET,
                url = API_BASE_URL @ ''/search?query='' @ encodeURIComponent query,
                headers = [], body = None\<rparr>
      in (rq,
          case fetch rq of
            Rejected \<Rightarrow> Inl TypeError
          | Response status parsed \<Rightarrow>
              if \<not> ok status then Inl (Error ''Search failed'')
              else (case parsed of None \<Rightarrow> Inl SyntaxError | Some v \<Rightarrow> Inr v)))"

definition buildGraph ::
  "(request \<Rightarrow> 'a fetch_outcome) \<Rightarrow> string \<Rightarrow> int option \<Rightarrow> int option \<Rightarrow>
   request \<times> (js_error + 'a)" where
  "buildGraph fetch paperId width height =
     (let w = or_number width 1000;
          h = or_number height 1000;
          rq = \<lparr>request_method = GET,
                url = API_BASE_URL @ ''/build_graph?paper_id='' @ paperId @
                      ''&width='' @ Number_toString w @ ''&height='' @ Number_toString h,
                headers = [], body = None\<rparr>
      in (rq,
          case fetch rq of
            Rejected \<Rightarrow> Inl TypeError
          | Response status parsed \<Rightarrow>
              if \<not> ok status then Inl (Error ''Failed to build graph'')
              else (case parsed of None \<Rightarrow> Inl SyntaxError | Some v \<Rightarrow> Inr v)))"

definition summarizeConnection ::
  "(request \<Rightarrow> 'a fetch_outcome) \<Rightarrow> string \<Rightarrow> string \<Rightarrow> request \<times> (js_error + 'a)" where
  "summarizeConnection fetch sourceAbstract targetAbstract =
     (let rq = \<lparr>request_method = POST,
                url = API_BASE_URL @ ''/summarize_connection'',
                headers = [(''Content-Type'', ''application/json'')],
                body = Some (JSON_stringify [(''source_abstract'', sourceAbstract),
                                             (''target_abstract'', targetAbstract)])\<rparr>
      in (rq,
          case fetch rq of
            Rejected \<Rightarrow> Inl TypeError
          | Response status parsed \<Rightarrow>
              if \<not> ok status then Inl (Error ''Summarization failed'')
              else (case parsed of None \<Rightarrow> Inl SyntaxError | Some v \<Rightarrow> Inr v)))"

text \<open>
  The responses of the endpoints, with the fields the client reads:
  \<open>search\<close> gives \<open>{results: [{paperId, title, ...}]}\<close>, where \<open>results\<close> may be
  missing; \<open>summarize_connection\<close> gives \<open>{summary}\<close>. A network answers every
  request of each endpoint.
\<close>

record search_hit =
  paperId :: string
  title :: string

record search_response =
  results :: "search_hit list option"

record summary_response =
  summary :: string

record network =
  search_endpoint :: "request \<Rightarrow> search_response fetch_outcome"
  build_graph_endpoint :: "request \<Rightarrow> graph_payload fetch_outcome"
  summarize_endpoint :: "request \<Rightarrow> summary_response fetch_outcome"

section \<open>App: the edges shown for a threshold\<close>

text \<open>
  \<^verbatim>\<open>
  const filteredEdges = edges.filter(edge => {
    const weight = parseFloat(edge.label || "0");
    return weight >= edgeThreshold;
  });
  \<close>
\<close>

definition filteredEdges :: "(rat \<Rightarrow> jsnum) \<Rightarrow> edge list \<Rightarrow> jsnum \<Rightarrow> edge list" where
  "filteredEdges nv es edgeThreshold =
     filter (\<lambda>e. let weight = parseFloat nv (or_string (label e) ''0'')
                 in js_ge weight edgeThreshold) es"

section \<open>What the handlers do to the world\<close>

text \<open>
  Next to the React state of its component, a handler leaves a trace outside it: the
  requests it has sent with \<open>fetch\<close>, the texts it has shown with \<open>alert\<close> and the
  errors it has written with \<open>console.error\<close>, each in order. A handler is taken
  from its first statement to its last with no other event in between, every \<open>await\<close>
  answered by the network at once.
\<close>

record effects =
  requests :: "request list"
  alerts :: "string list"
  console :: "js_error list"

section \<open>Sidebar\<close>

text \<open>
  The state of the Sidebar and its two caches (refs, keyed by node id). The props are
  the selected node, which is present whenever the Sidebar renders anything, and the
  seed node, which is \<open>nodes.find(n => n.data.isSeed)\<close> and so may be undefined.
  \<^verbatim>\<open>
  const handleExplain = async () => {
      const seedAbstract = seedNode?.data?.abstract || "No abstract available for seed paper.";
      const targetAbstract = abstract || "No abstract available.";
      setLoading(true);
      try {
          const res = await api.summarizeConnection(seedAbstract, targetAbstract);
          setExplanation(res.summary);
          if (selectedNode?.id) {
              explanationCache.current[selectedNode.id] = res.summary;
          }
      } catch (err) {
          setExplanation("Failed to generate explanation. Please try again.");
      } finally {
          setLoading(false);
      }
  };
  \<close>
\<close>

record sidebar_state =
  explanation :: "string option"
  abstractExplanation :: "string option"
  loading :: bool
  abstractLoading :: bool
  explanationCache :: "string \<rightharpoonup> string"
  abstractCache :: "string \<rightharpoonup> string"

definition handleExplain ::
  "network \<Rightarrow> node \<Rightarrow> node option \<Rightarrow> sidebar_state \<times> effects \<Rightarrow> sidebar_state \<times> effects" where
  "handleExplain net selectedNode seedNode =
     (\<lambda>(st, fx).
        let seedAbstract =
              or_string (case seedNode of None \<Rightarrow> None | Some n \<Rightarrow> abstract (data n))
                ''No abstract available for seed paper.'';
            targetAbstract = or_string (abstract (data selectedNode)) ''No abstract available.'';
            st1 = st\<lparr>loading := True\<rparr>;
            (rq, res) = summarizeConnection (summarize_endpoint net) seedAbstract targetAbstract;
            fx1 = fx\<lparr>requests := requests fx @ [rq]\<rparr>;
            st2 =
              (case res of
                 Inr r \<Rightarrow>
                   st1\<lparr>explanation := Some (summary r),
                       explanationCache :=
                         (if node_id selectedNode \<noteq> []
                          then (explanationCache st1)(node_id selectedNode \<mapsto> summary r)
                          else explanationCache st1)\<rparr>
               | Inl err \<Rightarrow>
                   st1\<lparr>explanation := Some ''Failed to generate explanation. Please try again.''\<rparr>)
        in (st2\<lparr>loading := False\<rparr>, fx1))"

text \<open>
  The text the AI-analysis block shows under its button. The block is rendered for a
  node that is not the seed, and in it
  \<open>{explanation && (<div ...><p ...>{explanation}</p></div>)}\<close>.
\<close>

definition explanation_text :: "node \<Rightarrow> sidebar_state \<Rightarrow> string" where
  "explanation_text selectedNode st =
     (if isSeed (data selectedNode) then []
      else (case explanation st of None \<Rightarrow> [] | Some s \<Rightarrow> if s = [] then [] else s))"

section \<open>App: searching and building the graph\<close>

text \<open>
  \<^verbatim>\<open>
  const onSearch = async (query) => {
    setLoading(true);
    try {
      const searchRes = await api.search(query);
      if (searchRes.results && searchRes.results.length > 0) {
        const paperId = searchRes.results[0].paperId;
        const width = window.innerWidth;
        const height = window.innerHeight;
        const graphData = await api.buildGraph(paperId, width, height);
        setNodes(graphData.nodes);
        setEdges(graphData.edges);
      } else {
        alert("No papers found!");
      }
    } catch (error) {
      console.error(error);
      alert("Error building graph");
    } finally {
      setLoading(false);
    }
  };
  \<close>
  The later revision of App with the timeline view adds, after \<open>setEdges\<close>, the
  reset of its layout mode and of the saved positions; nodes, edges and the requests
  are handled as here.
\<close>

record window =
  innerWidth :: int
  innerHeight :: int

record app_state =
  nodes :: "node list"
  edges :: "edge list"
  selectedNode :: "node option"
  loading :: bool
  edgeThreshold :: jsnum

definition onSearch_catch :: "js_error \<Rightarrow> app_state \<times> effects \<Rightarrow> app_state \<times> effects" where
  "onSearch_catch error =
     (\<lambda>(app, fx). (app, fx\<lparr>alerts := alerts fx @ [''Error building graph''],
                             console := console fx @ [error]\<rparr>))"

definition onSearch ::
  "network \<Rightarrow> window \<Rightarrow> string \<Rightarrow> app_state \<times> effects \<Rightarrow> app_state \<times> effects" where
  "onSearch net win query =
     (\<lambda>(app, fx).
        let app1 = app\<lparr>loading := True\<rparr>;
            (rq1, searchRes) = search (search_endpoint net) query;
            fx1 = fx\<lparr>requests := requests fx @ [rq1]\<rparr>;
            (app2, fx2) =
              (case searchRes of
                 Inl error \<Rightarrow> onSearch_catch error (app1, fx1)
               | Inr res \<Rightarrow>
                   (case results res of
                      Some (first # others) \<Rightarrow>
                        let paperId = search_hit.paperId first;
                            width = innerWidth win;
                            height = innerHeight win;
                            (rq2, graphData) =
                              buildGraph (build_graph_endpoint net) paperId (Some width) (Some height);
                            fx2 = fx1\<lparr>requests := requests fx1 @ [rq2]\<rparr>
                        in (case graphData of
                              Inl error \<Rightarrow> onSearch_catch error (app1, fx2)
                            | Inr g \<Rightarrow>
                                (app1\<lparr>nodes := graph_payload.nodes g,
                                      edges := graph_payload.edges g\<rparr>, fx2))
                    | _ \<Rightarrow> (app1, fx1\<lparr>alerts := alerts fx1 @ [''No papers found!'']\<rparr>)))
        in (app2\<lparr>loading := False\<rparr>, fx2))"

text \<open>
  The handler behind "Expand Graph from Here" builds the graph of a known id, without
  dimensions:
  \<^verbatim>\<open>
  onBuildGraphForId={async (id) => {
    setLoading(true);
    try {
      const graphData = await api.buildGraph(id);
      setNodes(graphData.nodes);
      setEdges(graphData.edges);
    } catch (err) {
      alert("Failed to build graph");
    } finally {
      setLoading(false);
    }
  }}
  \<close>
\<close>

definition onBuildGraphForId ::
  "network \<Rightarrow> string \<Rightarrow> app_state \<times> effects \<Rightarrow> app_state \<times> effects" where
  "onBuildGraphForId net id' =
     (\<lambda>(app, fx).
        let app1 = app\<lparr>loading := True\<rparr>;
            (rq, graphData) = buildGraph (build_graph_endpoint net) id' None None;
            fx1 = fx\<lparr>requests := requests fx @ [rq]\<rparr>;
            (app2, fx2) =
              (case graphData of
                 Inl err \<Rightarrow> (app1, fx1\<lparr>alerts := alerts fx1 @ [''Failed to build graph'']\<rparr>)
               | Inr g \<Rightarrow>
                   (app1\<lparr>nodes := graph_payload.nodes g, edges := graph_payload.edges g\<rparr>, fx1))
        in (app2\<lparr>loading := False\<rparr>, fx2))"

section \<open>SearchBar\<close>

text \<open>
  \<^verbatim>\<open>
  const handleSubmit = async (e) => {
      e.preventDefault();
      if (!query.trim()) return;
      setLoading(true);
      try {
          await onSearch(query);
      } finally {
          setLoading(false);
      }
  };
  \<close>
  \<open>onSearch\<close> is the prop of the component: any function of the query that acts on
  what lies outside the SearchBar. \<open>e.preventDefault()\<close> only stops the browser from
  submitting the form.
\<close>

record searchbar_state =
  query :: string
  loading :: bool

definition handleSubmit ::
  "(string \<Rightarrow> 'w \<Rightarrow> 'w) \<Rightarrow> searchbar_state \<times> 'w \<Rightarrow> searchbar_state \<times> 'w" where
  "handleSubmit =
     (\<lambda>onSearch (sb, world).
        if trim (query sb) = [] then (sb, world)
        else
          let sb1 = sb\<lparr>loading := True\<rparr>;
              world' = onSearch (query sb) world
          in (sb1\<lparr>loading := False\<rparr>, world'))"

section \<open>The backend engine, from its specification\<close>

text \<open>
  Modelled from the spec: the Paper of section 3, of which the Coupling Scorer reads the
  id and the set of reference ids. The backend that holds papers is not among the
  sources.
\<close>

record paper =
  paper_id :: string
  referenceIds :: "string fset"

text \<open>
  Modelled from the spec: the Coupling Scorer of section 4.3, which is backend code that
  is not among the sources.
  \<^verbatim>\<open>coupling(seed, c) = |R(seed) n R(c)| / min(|R(seed)|, |R(c)|)\<close> (\<open>n\<close> the
  intersection), the normalized overlap, 0 if either set is empty.
\<close>

definition coupling :: "paper \<Rightarrow> paper \<Rightarrow> rat" where
  "coupling a b =
     (if referenceIds a = {||} \<or> referenceIds b = {||} then 0
      else of_nat (fcard (referenceIds a |\<inter>| referenceIds b)) /
           of_nat (min (fcard (referenceIds a)) (fcard (referenceIds b))))"



text \<open>
  Modelled from the spec: the radius of a ring (section 4.4), "chosen so the outermost
  ring stays within \<open>min(width, height) * 0.45\<close> of center", inner rings having the smaller
  radius. The spec gives the bound and the order but no formula; the rings are taken
  evenly spaced, ring \<open>k\<close> of \<open>ringCount\<close> (counted from 0) at \<open>(k + 1) / ringCount\<close> of
  the bound, so that the outermost ring lies on it.
\<close>

definition ring_radius :: "real \<Rightarrow> real \<Rightarrow> nat \<Rightarrow> nat \<Rightarrow> real" where
  "ring_radius width height ringCount k =
     0.45 * min width height * real (Suc k) / real ringCount"



text \<open>
  Modelled from the spec: the dimensions \<open>build_graph(paper_id, width, height)\<close> works
  with (section 4.5): "Width/height default to 1000 x 1000 when absent or non-positive".
\<close>

definition canvas_dimension :: "real option \<Rightarrow> real" where
  "canvas_dimension d = (case d of None \<Rightarrow> 1000 | Some v \<Rightarrow> if v \<le> 0 then 1000 else v)"


section \<open>Responses and sample inputs\<close>

text \<open>A response arrived and its status is outside 200 to 299.\<close>

definition non_2xx :: "'a fetch_outcome \<Rightarrow> bool" where
  "non_2xx out = (case out of Rejected \<Rightarrow> False | Response status parsed \<Rightarrow> \<not> ok status)"

text \<open>
  Concrete inputs on which the properties below are run: a window, the state App starts
  in, a state that shows a graph, and four networks (one that finds two papers and
  builds a graph, one that finds nothing, one whose \<open>build_graph\<close> answers 404 for one
  paper, one that explains by the body of the request).
\<close>

definition sample_window :: window where
  "sample_window = \<lparr>innerWidth = 800, innerHeight = 600\<rparr>"

definition initial_app :: app_state where
  "initial_app =
     \<lparr>nodes = [], edges = [], selectedNode = None, loading = False, edgeThreshold = Fin 0\<rparr>"

definition no_effects :: effects where
  "no_effects = \<lparr>requests = [], alerts = [], console = []\<rparr>"

definition sample_edge :: edge where
  "sample_edge = \<lparr>source = ''W1'', target = ''W3'', label = Some ''0.67''\<rparr>"

definition sample_graph :: graph_payload where
  "sample_graph = \<lparr>graph_payload.nodes = [], graph_payload.edges = [sample_edge]\<rparr>"

definition showing_app :: app_state where
  "showing_app =
     \<lparr>nodes = [], edges = [sample_edge], selectedNode = None, loading = False,
      edgeThreshold = Fin 0\<rparr>"

definition sample_hits :: "search_hit list" where
  "sample_hits = [\<lparr>paperId = ''W1'', title = ''T''\<rparr>, \<lparr>paperId = ''W2'', title = ''U''\<rparr>]"

definition finding_network :: network where
  "finding_network =
     \<lparr>search_endpoint = (\<lambda>rq. Response 200 (Some \<lparr>results = Some sample_hits\<rparr>)),
      build_graph_endpoint = (\<lambda>rq. Response 200 (Some sample_graph)),
      summarize_endpoint = (\<lambda>rq. Response 200 (Some \<lparr>summary = ''Both build on W3.''\<rparr>))\<rparr>"

definition empty_network :: network where
  "empty_network =
     \<lparr>search_endpoint = (\<lambda>rq. Response 200 (Some \<lparr>results = Some []\<rparr>)),
      build_graph_endpoint = (\<lambda>rq. Response 200 (Some sample_graph)),
      summarize_endpoint = (\<lambda>rq. Rejected)\<rparr>"

definition selective_network :: network where
  "selective_network =
     \<lparr>search_endpoint = (\<lambda>rq. Response 200 (Some \<lparr>results = Some sample_hits\<rparr>)),
      build_graph_endpoint =
        (\<lambda>rq. if take 46 (url rq) = ''http://localhost:8000/build_graph?paper_id=W1&''
              then Response 404 None else Response 200 (Some sample_graph)),
      summarize_endpoint = (\<lambda>rq. Rejected)\<rparr>"

definition weak_edge :: edge where
  "weak_edge = \<lparr>source = ''W1'', target = ''W4'', label = Some ''0.30''\<rparr>"

definition blank_edge :: edge where
  "blank_edge = \<lparr>source = ''W1'', target = ''W5'', label = Some ''''\<rparr>"

definition sample_node :: node where
  "sample_node =
     \<lparr>node_id = ''W3'',
      data = \<lparr>node_data.label = ''Graph attention'', year = Some 2018,
              abstract = Some ''We present GAT.'', citationCount = 12, isSeed = False\<rparr>,
      position = (670, 300)\<rparr>"

definition initial_sidebar :: sidebar_state where
  "initial_sidebar =
     \<lparr>explanation = None, abstractExplanation = None, sidebar_state.loading = False,
      abstractLoading = False, explanationCache = Map.empty, abstractCache = Map.empty\<rparr>"

definition seed_paper :: paper where
  "seed_paper = \<lparr>paper_id = ''A'', referenceIds = {|''B'', ''C''|}\<rparr>"

definition paper_D :: paper where
  "paper_D = \<lparr>paper_id = ''D'', referenceIds = {|''B'', ''C'', ''E''|}\<rparr>"



definition quoting_text :: string where
  "quoting_text = [CHR ''a'', CHR 0x22, CHR 0x5C, CHR 0x0A, CHR 0x01, CHR ''z'']"

definition quoting_node :: node where
  "quoting_node =
     \<lparr>node_id = ''W4'',
      data = \<lparr>node_data.label = ''Quoted'', year = None, abstract = Some quoting_text,
              citationCount = 0, isSeed = False\<rparr>,
      position = (0, 0)\<rparr>"

definition explaining_network :: network where
  "explaining_network =
     \<lparr>search_endpoint = (\<lambda>rq. Rejected),
      build_graph_endpoint = (\<lambda>rq. Rejected),
      summarize_endpoint =
        (\<lambda>rq. if body rq = Some (JSON_stringify [(''source_abstract'', ''We present GAT.''),
                                                   (''target_abstract'', quoting_text)])
              then Response 200 (Some \<lparr>summary = ''Both build on W3.''\<rparr>)
              else Response 200 (Some \<lparr>summary = ''Unrelated.''\<rparr>))\<rparr>"

section \<open>Properties of the client\<close>

subsection \<open>A blank query is never searched\<close>

lemma trim_empty_iff: "trim s = [] \<longleftrightarrow> (\<forall>c\<in>set s. is_white_space c)"
proof
  assume "trim s = []"
  then have "dropWhile is_white_space (rev (dropWhile is_white_space s)) = []"
    by (simp add: trim_def)
  then have rest: "\<forall>c\<in>set (dropWhile is_white_space s). is_white_space c" by simp
  show "\<forall>c\<in>set s. is_white_space c"
  proof (cases "dropWhile is_white_space s")
    case Nil
    then show ?thesis by simp
  next
    case (Cons c cs)
    then have "\<not> is_white_space c" using hd_dropWhile [of is_white_space s] by simp
    with rest Cons show ?thesis by simp
  qed
next
  assume "\<forall>c\<in>set s. is_white_space c"
  then have blank: "dropWhile is_white_space s = []" by simp
  show "trim s = []" unfolding trim_def blank by simp
qed

text \<open>Past the guard, \<open>onSearch\<close> is run on the query once, between the two \<open>setLoading\<close>.\<close>

lemma handleSubmit_runs_onSearch:
  "trim (query sb) \<noteq> [] \<Longrightarrow>
   handleSubmit f (sb, world) = (sb\<lparr>loading := False\<rparr>, f (query sb) world)"
  by (simp add: handleSubmit_def Let_def)

text \<open>
  Claim C8. When the query is empty or made of white space only (the code units that
  \<open>trim\<close> strips), \<open>handleSubmit\<close>
  returns at its guard: whatever \<open>onSearch\<close> it was given is not run, and the state of
  the SearchBar and everything outside it are as before. With the \<open>onSearch\<close> of App
  this means that no request is added to the trace and that nodes and edges stay.
\<close>

theorem handleSubmit_blank_query:
  "(\<forall>c\<in>set (query sb). is_white_space c) \<Longrightarrow>
     handleSubmit f (sb, world) = (sb, world) \<and>
     handleSubmit (onSearch net win) (sb, app, fx) = (sb, app, fx)"
  by (simp add: handleSubmit_def trim_empty_iff)

theorem handleSubmit_blank_query_witness:
  "handleSubmit
     (onSearch \<lparr>search_endpoint = (\<lambda>rq. Rejected), build_graph_endpoint = (\<lambda>rq. Rejected),
                summarize_endpoint = (\<lambda>rq. Rejected)\<rparr>
        \<lparr>innerWidth = 800, innerHeight = 600\<rparr>)
     (\<lparr>query = [CHR '' '', CHR 0x09, CHR 0xA0], loading = False\<rparr>,
      \<lparr>nodes = [], edges = [], selectedNode = None, loading = False, edgeThreshold = Fin 0\<rparr>,
      \<lparr>requests = [], alerts = [], console = []\<rparr>)
   = (\<lparr>query = [CHR '' '', CHR 0x09, CHR 0xA0], loading = False\<rparr>,
      \<lparr>nodes = [], edges = [], selectedNode = None, loading = False, edgeThreshold = Fin 0\<rparr>,
      \<lparr>requests = [], alerts = [], console = []\<rparr>)"
  using handleSubmit_blank_query
    [where sb = "\<lparr>query = [CHR '' '', CHR 0x09, CHR 0xA0], loading = False\<rparr>"
       and f = "\<lambda>q (w :: unit). w" and world = "()"
       and net = "\<lparr>search_endpoint = (\<lambda>rq. Rejected), build_graph_endpoint = (\<lambda>rq. Rejected),
                    summarize_endpoint = (\<lambda>rq. Rejected)\<rparr>"
       and win = "\<lparr>innerWidth = 800, innerHeight = 600\<rparr>"
       and app = "\<lparr>nodes = [], edges = [], selectedNode = None, loading = False,
                    edgeThreshold = Fin 0\<rparr>"
       and fx = "\<lparr>requests = [], alerts = [], console = []\<rparr>"]
  by (simp add: is_white_space_def)

subsection \<open>The request of buildGraph\<close>

text \<open>The digits that \<open>Number_toString\<close> writes for a Number read back as that Number.\<close>

lemma digit_value_digit: "d < 10 \<Longrightarrow> digit_value (''0123456789'' ! d) = d"
proof -
  assume "d < 10"
  then have "d \<in> set [0, 1, 2, 3, 4, 5, 6, 7, 8, 9]" by auto
  then show ?thesis by (auto simp: digit_value_def)
qed

lemma digits_value_snoc: "digits_value (ds @ [c]) = 10 * digits_value ds + digit_value c"
  by (simp add: digits_value_def)

lemma digits_value_nat_digits: "digits_value (nat_digits n) = n"
proof (induction n rule: nat_digits.induct)
  case (1 n)
  show ?case
  proof (cases "n < 10")
    case True
    then show ?thesis by (simp add: digits_value_def digit_value_digit)
  next
    case False
    with "1" have "digits_value (nat_digits (n div 10)) = n div 10" by simp
    with False show ?thesis
      by (subst nat_digits.simps) (simp add: digits_value_snoc digit_value_digit)
  qed
qed

text \<open>
  Claim C2, as amended. Every call \<open>api.buildGraph(paperId, width, height)\<close>, with
  width and height absent or safe integers, issues one GET of
  \<open><base>/build_graph?paper_id=<paperId>&width=<w>&height=<h>\<close> with no headers and no
  body, where \<open>w\<close> and \<open>h\<close> are the given width and height, except that each is 1000
  when its argument is absent or 0. A negative argument is sent as it is.
\<close>

theorem buildGraph_request:
  assumes "safe_dimension width" and "safe_dimension height"
  shows "fst (buildGraph fetch pid width height) =
     \<lparr>request_method = GET,
      url = API_BASE_URL @ ''/build_graph?paper_id='' @ pid @
            ''&width='' @
            Number_toString (case width of None \<Rightarrow> 1000 | Some n \<Rightarrow> if n = 0 then 1000 else n) @
            ''&height='' @
            Number_toString (case height of None \<Rightarrow> 1000 | Some n \<Rightarrow> if n = 0 then 1000 else n),
      headers = [], body = None\<rparr>"
  by (simp add: buildGraph_def or_number_def Let_def)

theorem buildGraph_request_witness:
  "fst (buildGraph (build_graph_endpoint finding_network) ''W1'' (Some 800) None) =
     \<lparr>request_method = GET,
      url = ''http://localhost:8000/build_graph?paper_id=W1&width=800&height=1000'',
      headers = [], body = None\<rparr> \<and>
   url (fst (buildGraph (build_graph_endpoint finding_network) ''W1'' (Some 0) (Some (- 600)))) =
     ''http://localhost:8000/build_graph?paper_id=W1&width=1000&height=-600''"
  using buildGraph_request [of "Some 800" None "build_graph_endpoint finding_network" "''W1''"]
    buildGraph_request [of "Some 0" "Some (- 600)" "build_graph_endpoint finding_network" "''W1''"]
  by (simp add: API_BASE_URL_def Number_toString_def safe_dimension_def safe_integer_def)

text \<open>
  The claim as it was stated fails for a negative width: \<open>-5 || 1000\<close> is \<open>-5\<close>, so the
  request carries \<open>width=-5\<close> and not \<open>width=1000\<close>.
\<close>

theorem buildGraph_negative_width_counterexample:
  "url (fst (buildGraph (build_graph_endpoint finding_network) ''W1'' (Some (- 5)) (Some 600))) =
     ''http://localhost:8000/build_graph?paper_id=W1&width=-5&height=600'' \<and>
   url (fst (buildGraph (build_graph_endpoint finding_network) ''W1'' (Some (- 5)) (Some 600))) \<noteq>
     ''http://localhost:8000/build_graph?paper_id=W1&width=1000&height=600''"
  by (simp add: buildGraph_def or_number_def Let_def API_BASE_URL_def Number_toString_def)

subsection \<open>A failed build leaves the graph\<close>

lemma buildGraph_non_2xx:
  "non_2xx (fetch (fst (buildGraph fetch pid width height))) \<Longrightarrow>
   snd (buildGraph fetch pid width height) = Inl (Error ''Failed to build graph'')"
  by (auto simp: buildGraph_def non_2xx_def Let_def split: fetch_outcome.splits)

text \<open>
  Claim C3. When the response to the request that \<open>api.buildGraph\<close> issues has a status
  outside 200 to 299, \<open>api.buildGraph\<close> throws \<open>Error("Failed to build graph")\<close> and
  returns no payload. When this is the response to the build request of \<open>onSearch\<close> (the
  one for the first hit of the search) or of \<open>onBuildGraphForId\<close>, the nodes and the edges
  of App are the ones it had before, and the failure is shown with \<open>alert\<close>. What the
  network answers to any other request does not matter.
\<close>

theorem failed_build_keeps_graph:
  "(non_2xx (fetch (fst (buildGraph fetch pid width height))) \<longrightarrow>
      snd (buildGraph fetch pid width height) = Inl (Error ''Failed to build graph'')) \<and>
   (snd (search (search_endpoint net) q) = Inr res \<and> results res = Some (first # others) \<and>
    non_2xx (build_graph_endpoint net
               (fst (buildGraph (build_graph_endpoint net) (paperId first)
                       (Some (innerWidth win)) (Some (innerHeight win))))) \<longrightarrow>
      app_state.nodes (fst (onSearch net win q (app, fx))) = app_state.nodes app \<and>
      app_state.edges (fst (onSearch net win q (app, fx))) = app_state.edges app \<and>
      console (snd (onSearch net win q (app, fx))) =
        console fx @ [Error ''Failed to build graph''] \<and>
      alerts (snd (onSearch net win q (app, fx))) = alerts fx @ [''Error building graph'']) \<and>
   (non_2xx (build_graph_endpoint net
               (fst (buildGraph (build_graph_endpoint net) i None None))) \<longrightarrow>
      app_state.nodes (fst (onBuildGraphForId net i (app, fx))) = app_state.nodes app \<and>
      app_state.edges (fst (onBuildGraphForId net i (app, fx))) = app_state.edges app \<and>
      alerts (snd (onBuildGraphForId net i (app, fx))) = alerts fx @ [''Failed to build graph''])"
proof (intro conjI impI)
  assume "non_2xx (fetch (fst (buildGraph fetch pid width height)))"
  then show "snd (buildGraph fetch pid width height) = Inl (Error ''Failed to build graph'')"
    by (rule buildGraph_non_2xx)
next
  assume a: "snd (search (search_endpoint net) q) = Inr res \<and>
    results res = Some (first # others) \<and>
    non_2xx (build_graph_endpoint net
               (fst (buildGraph (build_graph_endpoint net) (paperId first)
                       (Some (innerWidth win)) (Some (innerHeight win)))))"
  then have thrown: "snd (buildGraph (build_graph_endpoint net) (paperId first)
                       (Some (innerWidth win)) (Some (innerHeight win))) =
      Inl (Error ''Failed to build graph'')"
    by (intro buildGraph_non_2xx) simp
  from a thrown show
    "app_state.nodes (fst (onSearch net win q (app, fx))) = app_state.nodes app"
    "app_state.edges (fst (onSearch net win q (app, fx))) = app_state.edges app"
    "console (snd (onSearch net win q (app, fx))) = console fx @ [Error ''Failed to build graph'']"
    "alerts (snd (onSearch net win q (app, fx))) = alerts fx @ [''Error building graph'']"
    by (simp_all add: onSearch_def onSearch_catch_def Let_def split_beta)
next
  assume "non_2xx (build_graph_endpoint net
                     (fst (buildGraph (build_graph_endpoint net) i None None)))"
  then have thrown: "snd (buildGraph (build_graph_endpoint net) i None None) =
      Inl (Error ''Failed to build graph'')"
    by (rule buildGraph_non_2xx)
  then show
    "app_state.nodes (fst (onBuildGraphForId net i (app, fx))) = app_state.nodes app"
    "app_state.edges (fst (onBuildGraphForId net i (app, fx))) = app_state.edges app"
    "alerts (snd (onBuildGraphForId net i (app, fx))) = alerts fx @ [''Failed to build graph'']"
    by (simp_all add: onBuildGraphForId_def Let_def split_beta)
qed

text \<open>
  The network of the sample answers 404 for the paper W1 only; the graph of W2 is built.
\<close>

theorem failed_build_keeps_graph_witness:
  "snd (buildGraph (build_graph_endpoint selective_network) ''W1'' (Some 800) (Some 600)) =
     Inl (Error ''Failed to build graph'') \<and>
   app_state.edges (fst (onSearch selective_network sample_window ''gnn'' (showing_app, no_effects))) =
     [sample_edge] \<and>
   app_state.nodes (fst (onSearch selective_network sample_window ''gnn'' (showing_app, no_effects))) =
     [] \<and>
   alerts (snd (onSearch selective_network sample_window ''gnn'' (showing_app, no_effects))) =
     [''Error building graph''] \<and>
   app_state.edges (fst (onBuildGraphForId selective_network ''W1'' (showing_app, no_effects))) =
     [sample_edge] \<and>
   alerts (snd (onBuildGraphForId selective_network ''W1'' (showing_app, no_effects))) =
     [''Failed to build graph''] \<and>
   app_state.edges (fst (onBuildGraphForId selective_network ''W2'' (initial_app, no_effects))) =
     [sample_edge]"
  using failed_build_keeps_graph
    [where fetch = "build_graph_endpoint selective_network" and pid = "''W1''"
       and width = "Some 800" and height = "Some 600"
       and net = selective_network and win = sample_window and q = "''gnn''"
       and res = "\<lparr>results = Some sample_hits\<rparr>"
       and first = "\<lparr>paperId = ''W1'', title = ''T''\<rparr>"
       and others = "[\<lparr>paperId = ''W2'', title = ''U''\<rparr>]"
       and app = showing_app and fx = no_effects and i = "''W1''"]
  by (simp add: selective_network_def sample_hits_def sample_window_def non_2xx_def ok_def
        showing_app_def initial_app_def no_effects_def sample_graph_def
        search_def buildGraph_def onBuildGraphForId_def Let_def or_number_def Number_toString_def
        API_BASE_URL_def)

subsection \<open>The first result is the one whose graph is built\<close>

text \<open>
  Claim C4. Let the search return \<open>res\<close>. When its results start with a first hit,
  \<open>onSearch\<close> sends, after the search request, exactly the request of
  \<open>api.buildGraph(first.paperId, window.innerWidth, window.innerHeight)\<close>, and when that
  call returns a payload its nodes and edges become the state. When the results are
  missing or empty, the search request is the only one sent and nodes and edges stay.
\<close>

theorem onSearch_first_result:
  assumes "snd (search (search_endpoint net) q) = Inr res"
  shows "(results res = Some (first # others) \<longrightarrow>
            requests (snd (onSearch net win q (app, fx))) =
              requests fx @
                [fst (search (search_endpoint net) q),
                 fst (buildGraph (build_graph_endpoint net) (paperId first)
                        (Some (innerWidth win)) (Some (innerHeight win)))] \<and>
            (snd (buildGraph (build_graph_endpoint net) (paperId first)
                    (Some (innerWidth win)) (Some (innerHeight win))) = Inr g \<longrightarrow>
               app_state.nodes (fst (onSearch net win q (app, fx))) = graph_payload.nodes g \<and>
               app_state.edges (fst (onSearch net win q (app, fx))) = graph_payload.edges g)) \<and>
         (results res = None \<or> results res = Some [] \<longrightarrow>
            requests (snd (onSearch net win q (app, fx))) =
              requests fx @ [fst (search (search_endpoint net) q)] \<and>
            app_state.nodes (fst (onSearch net win q (app, fx))) = app_state.nodes app \<and>
            app_state.edges (fst (onSearch net win q (app, fx))) = app_state.edges app)"
  using assms
  by (auto simp: onSearch_def onSearch_catch_def Let_def split_beta
           split: sum.splits option.splits list.splits)

theorem onSearch_first_result_witness:
  "requests (snd (onSearch finding_network sample_window ''gnn'' (initial_app, no_effects))) =
     [\<lparr>request_method = GET, url = ''http://localhost:8000/search?query=gnn'',
       headers = [], body = None\<rparr>,
      \<lparr>request_method = GET,
       url = ''http://localhost:8000/build_graph?paper_id=W1&width=800&height=600'',
       headers = [], body = None\<rparr>] \<and>
   app_state.edges (fst (onSearch finding_network sample_window ''gnn'' (initial_app, no_effects))) =
     [sample_edge] \<and>
   requests (snd (onSearch empty_network sample_window ''gnn'' (showing_app, no_effects))) =
     [\<lparr>request_method = GET, url = ''http://localhost:8000/search?query=gnn'',
       headers = [], body = None\<rparr>] \<and>
   app_state.edges (fst (onSearch empty_network sample_window ''gnn'' (showing_app, no_effects))) =
     [sample_edge]"
  using onSearch_first_result
    [where net = finding_network and q = "''gnn''" and win = sample_window
       and res = "\<lparr>results = Some sample_hits\<rparr>"
       and first = "\<lparr>paperId = ''W1'', title = ''T''\<rparr>"
       and others = "[\<lparr>paperId = ''W2'', title = ''U''\<rparr>]"
       and g = sample_graph and app = initial_app and fx = no_effects]
    onSearch_first_result
    [where net = empty_network and q = "''gnn''" and win = sample_window
       and res = "\<lparr>results = Some []\<rparr>" and app = showing_app and fx = no_effects]
  by (simp add: finding_network_def empty_network_def sample_hits_def sample_graph_def
        sample_window_def no_effects_def showing_app_def
        search_def buildGraph_def ok_def Let_def or_number_def Number_toString_def
        API_BASE_URL_def encodeURIComponent_def encode_unit_def uri_unreserved_def)

subsection \<open>The edges shown for a threshold\<close>

lemma digit_not_special:
  assumes "is_digit c"
  shows "\<not> is_white_space c" "c \<noteq> CHR ''-''" "c \<noteq> CHR ''+''" "c \<noteq> CHR ''I''"
    "c \<noteq> CHR ''.''"
  using assms by (auto simp: is_digit_def is_white_space_def)

text \<open>
  \<open>parseFloat\<close> reads a plain decimal string, digits then a point then digits, as the
  number these digits write.
\<close>

lemma parseFloat_plain_decimal:
  assumes "ip \<noteq> []" and "\<forall>c\<in>set ip. is_digit c" and "\<forall>c\<in>set fp. is_digit c"
  shows "parseFloat nv (ip @ ''.'' @ fp) = nv (of_nat (digits_value (ip @ fp)) / 10 ^ length fp)"
proof -
  from assms(1) obtain c cs where ip: "ip = c # cs" by (cases ip) auto
  with assms(2) have c: "is_digit c" by simp
  let ?s = "ip @ CHR ''.'' # fp"
  have trimmed: "dropWhile is_white_space ?s = ?s"
    using digit_not_special(1) [OF c] by (simp add: ip)
  have sign: "(take 1 ?s = ''-'') = False" "(take 1 ?s = ''+'') = False"
    using digit_not_special(2,3) [OF c] by (simp_all add: ip)
  have inf: "(take 8 ?s = ''Infinity'') = False"
    using digit_not_special(4) [OF c] by (simp add: ip take_Cons')
  have int_part: "takeWhile is_digit ?s = ip"
    using assms(2) by (simp add: takeWhile_append2 is_digit_def)
  have after_int: "dropWhile is_digit ?s = CHR ''.'' # fp"
    using assms(2) by (simp add: dropWhile_append2 is_digit_def)
  have frac: "takeWhile is_digit fp = fp" "dropWhile is_digit fp = []"
    using assms(3) by (simp_all add: takeWhile_eq_all_conv)
  have "parseFloat nv ?s = nv (of_nat (digits_value (ip @ fp)) / 10 ^ length fp)"
    unfolding parseFloat_def Let_def trimmed sign inf int_part after_int if_False simp_thms
    using assms(1)
    by (simp add: frac parse_exponent_def scale10_def)
  then show ?thesis by simp
qed

lemma parseFloat_samples:
  "parseFloat Fin ''0.67'' = Fin (67 / 100)" "parseFloat Fin ''0.30'' = Fin (3 / 10)"
  "parseFloat Fin ''0'' = Fin 0" "parseFloat Fin '''' = NaN"
  by (simp_all add: parseFloat_def is_white_space_def is_digit_def digits_value_def
        digit_value_def scale10_def parse_exponent_def Let_def)

text \<open>
  Claim C1, as amended. For every edge list and every threshold \<open>t\<close>, \<open>filteredEdges\<close>
  is the list of exactly those edges, in their order, for which \<open>parseFloat\<close> of the
  label is \<open>>= t\<close>, a label that is missing or empty being read as \<open>"0"\<close>. In
  particular an edge whose label is a plain decimal string such as \<open>0.67\<close> is kept if and
  only if the number the string writes (as a Number) is \<open>>= t\<close>.
\<close>

theorem filteredEdges_threshold:
  "filteredEdges nv es t =
     filter (\<lambda>e. js_ge (parseFloat nv (case label e of None \<Rightarrow> ''0''
                                          | Some s \<Rightarrow> if s = [] then ''0'' else s)) t) es \<and>
   (ip \<noteq> [] \<and> (\<forall>c\<in>set (ip @ fp). is_digit c) \<and> label e = Some (ip @ ''.'' @ fp) \<longrightarrow>
      (e \<in> set (filteredEdges nv es t) \<longleftrightarrow>
       e \<in> set es \<and> js_ge (nv (of_nat (digits_value (ip @ fp)) / 10 ^ length fp)) t))"
proof (intro conjI impI)
  show "filteredEdges nv es t =
     filter (\<lambda>e. js_ge (parseFloat nv (case label e of None \<Rightarrow> ''0''
                                          | Some s \<Rightarrow> if s = [] then ''0'' else s)) t) es"
    by (simp add: filteredEdges_def or_string_def)
next
  assume a: "ip \<noteq> [] \<and> (\<forall>c\<in>set (ip @ fp). is_digit c) \<and> label e = Some (ip @ ''.'' @ fp)"
  then have "parseFloat nv (ip @ ''.'' @ fp) =
      nv (of_nat (digits_value (ip @ fp)) / 10 ^ length fp)"
    by (intro parseFloat_plain_decimal) auto
  with a show "e \<in> set (filteredEdges nv es t) \<longleftrightarrow>
       e \<in> set es \<and> js_ge (nv (of_nat (digits_value (ip @ fp)) / 10 ^ length fp)) t"
    by (simp add: filteredEdges_def or_string_def)
qed

theorem filteredEdges_threshold_witness:
  "filteredEdges Fin [sample_edge, weak_edge] (Fin (1 / 2)) = [sample_edge] \<and>
   sample_edge \<in> set (filteredEdges Fin [sample_edge, weak_edge] (Fin (1 / 2)))"
  using filteredEdges_threshold
    [where nv = Fin and es = "[sample_edge, weak_edge]" and t = "Fin (1 / 2)"
       and ip = "''0''" and fp = "''67''" and e = sample_edge]
  by (simp add: sample_edge_def weak_edge_def parseFloat_samples is_digit_def digits_value_def
        digit_value_def)

text \<open>
  The claim as it was stated replaces only a missing label by \<open>"0"\<close>. An edge whose label
  is the empty string has a label, \<open>parseFloat("")\<close> is NaN and \<open>NaN >= 0\<close> is false, so
  by the claim the edge is not shown at threshold 0; but \<open>"" || "0"\<close> is \<open>"0"\<close>, and
  \<open>filteredEdges\<close> shows it.
\<close>

theorem filteredEdges_empty_label_counterexample:
  "filteredEdges Fin [blank_edge] (Fin 0) = [blank_edge] \<and>
   label blank_edge = Some '''' \<and>
   parseFloat Fin '''' = NaN \<and>
   \<not> js_ge (parseFloat Fin '''') (Fin 0)"
  by (simp add: filteredEdges_def or_string_def blank_edge_def parseFloat_samples)

subsection \<open>The request of summarizeConnection and what the Sidebar shows\<close>

lemma hex_value_lower: "d < 16 \<Longrightarrow> hex_value (hex_lower d) = Some d"
proof -
  assume "d < 16"
  then have "d \<in> set [0, 1, 2, 3, 4, 5, 6, 7, 8, 9, 10, 11, 12, 13, 14, 15]"
    by (simp, arith)
  then show ?thesis by (auto simp: hex_value_def hex_lower_def)
qed

lemma char_code_eq: "(of_char c :: nat) = of_char d \<Longrightarrow> c = d"
  by simp

lemma unicode_escape_control:
  assumes "(of_char c :: nat) < 32"
  shows "unicode_escape
           [CHR ''0'', CHR ''0'', hex_lower (of_char c div 16), hex_lower (of_char c mod 16)] =
         Some c"
proof -
  let ?n = "of_char c :: nat"
  have hi: "hex_value (hex_lower (?n div 16)) = Some (?n div 16)"
    using assms by (intro hex_value_lower) simp
  have lo: "hex_value (hex_lower (?n mod 16)) = Some (?n mod 16)"
    by (intro hex_value_lower) simp
  have z: "hex_value (CHR ''0'') = Some 0" by (simp add: hex_value_def)
  have "?n div 16 * 16 + ?n mod 16 = ?n" by simp
  moreover have "?n < 256" using assms by simp
  ultimately show ?thesis
    by (simp add: unicode_escape_def hi lo z Let_def)
qed

text \<open>What \<open>json_escape\<close> writes for a code unit is read back as that code unit.\<close>

lemma read_string_escape:
  "read_string (json_escape c @ u) = map_option (\<lambda>(s, t). (c # s, t)) (read_string u)"
proof -
  let ?n = "of_char c :: nat"
  consider (quote) "?n = 34" | (backslash) "?n = 92"
    | (b) "?n = 8" | (f) "?n = 12" | (n) "?n = 10" | (r) "?n = 13" | (t) "?n = 9"
    | (control) "?n < 32" "?n \<noteq> 8" "?n \<noteq> 9" "?n \<noteq> 10" "?n \<noteq> 12" "?n \<noteq> 13"
    | (plain) "32 \<le> ?n" "?n \<noteq> 34" "?n \<noteq> 92"
    by linarith
  then show ?thesis
  proof cases
    case quote
    then have "c = CHR 0x22" by (intro char_code_eq) simp
    then show ?thesis by (simp add: json_escape_def simple_escape_def)
  next
    case backslash
    then have "c = CHR 0x5C" by (intro char_code_eq) simp
    then show ?thesis by (simp add: json_escape_def simple_escape_def)
  next
    case b
    then have "c = CHR 0x08" by (intro char_code_eq) simp
    then show ?thesis by (simp add: json_escape_def simple_escape_def)
  next
    case f
    then have "c = CHR 0x0C" by (intro char_code_eq) simp
    then show ?thesis by (simp add: json_escape_def simple_escape_def)
  next
    case n
    then have "c = CHR 0x0A" by (intro char_code_eq) simp
    then show ?thesis by (simp add: json_escape_def simple_escape_def)
  next
    case r
    then have "c = CHR 0x0D" by (intro char_code_eq) simp
    then show ?thesis by (simp add: json_escape_def simple_escape_def)
  next
    case t
    then have "c = CHR 0x09" by (intro char_code_eq) simp
    then show ?thesis by (simp add: json_escape_def simple_escape_def)
  next
    case control
    then have esc: "json_escape c =
        [CHR 0x5C, CHR ''u'', CHR ''0'', CHR ''0'', hex_lower (?n div 16), hex_lower (?n mod 16)]"
      by (simp add: json_escape_def Let_def)
    show ?thesis
      by (simp add: esc unicode_escape_control [OF control(1)])
  next
    case plain
    then have esc: "json_escape c = [c]"
      by (simp add: json_escape_def Let_def)
    from plain have "c \<noteq> CHR 0x22" "c \<noteq> CHR 0x5C" by auto
    with plain show ?thesis by (simp add: esc)
  qed
qed

lemma read_string_quote:
  "read_string (concat (map json_escape s) @ CHR 0x22 # u) = Some (s, u)"
  by (induction s) (simp_all add: read_string_escape del: read_string.simps(2), simp)

lemma read_member_quote:
  "read_member (json_quote k @ '':'' @ json_quote v @ u) = Some ((k, v), u)"
  by (simp add: read_member_def json_quote_def read_string_quote)

lemma read_members_written:
  "obj \<noteq> [] \<Longrightarrow> length obj \<le> fuel \<Longrightarrow>
   read_members fuel (json_members obj @ ''}'') = Some obj"
proof (induction obj arbitrary: fuel rule: json_members.induct)
  case 1
  then show ?case by simp
next
  case (2 k v)
  then obtain f where "fuel = Suc f" by (cases fuel) auto
  then show ?case using read_member_quote [of k v "''}''"] by simp
next
  case (3 k v kv kvs)
  then obtain f where f: "fuel = Suc f" by (cases fuel) auto
  with 3 have ih: "read_members f (json_members (kv # kvs) @ ''}'') = Some (kv # kvs)" by simp
  show ?case
    using read_member_quote [of k v "'','' @ json_members (kv # kvs) @ ''}''"] ih
    by (simp add: f)
qed

lemma length_json_members: "length obj \<le> length (json_members obj)"
  by (induction obj rule: json_members.induct) (simp_all add: json_quote_def)

text \<open>
  The text that \<open>JSON.stringify\<close> writes for an object of strings reads back as that
  object: the same keys with the same values in the same order, and nothing else.
\<close>

lemma JSON_read_object_stringify: "JSON_read_object (JSON_stringify obj) = Some obj"
proof (cases "obj = []")
  case True
  then show ?thesis by (simp add: JSON_read_object_def JSON_stringify_def)
next
  case False
  then obtain k v kvs where obj: "obj = (k, v) # kvs" by (cases obj) auto
  have nb: "json_members obj @ ''}'' \<noteq> ''}''"
    using False by (cases kvs) (simp_all add: obj json_quote_def)
  have "length obj \<le> length (JSON_stringify obj)"
    using length_json_members [of obj] by (simp add: JSON_stringify_def)
  with False have members:
    "read_members (length (JSON_stringify obj)) (json_members obj @ ''}'') = Some obj"
    by (intro read_members_written)
  have parts: "take 1 (JSON_stringify obj) = ''{''"
    "drop 1 (JSON_stringify obj) = json_members obj @ ''}''"
    by (simp_all add: JSON_stringify_def)
  show ?thesis
    unfolding JSON_read_object_def parts using nb members by simp
qed

text \<open>
  Claim C7. \<open>api.summarizeConnection(a, b)\<close> issues a POST to \<open>/summarize_connection\<close>
  whose body is the JSON text of an object that reads back as exactly the two members
  \<open>source_abstract: a\<close> and \<open>target_abstract: b\<close>, in this order. \<open>handleExplain\<close> sends
  this request for the abstract of the seed and the abstract of the selected node (or
  their placeholders); when the response to this request has a 2xx status and the parsed
  body \<open>r\<close>, it stores \<open>r.summary\<close> as the explanation, and for a selected node that is
  not the seed (the only nodes that have the button) the Sidebar shows this text.
\<close>

theorem summarizeConnection_request_and_display:
  "fst (summarizeConnection fetch a b) =
     \<lparr>request_method = POST,
      url = API_BASE_URL @ ''/summarize_connection'',
      headers = [(''Content-Type'', ''application/json'')],
      body = Some (JSON_stringify [(''source_abstract'', a), (''target_abstract'', b)])\<rparr> \<and>
   JSON_read_object (JSON_stringify [(''source_abstract'', a), (''target_abstract'', b)]) =
     Some [(''source_abstract'', a), (''target_abstract'', b)] \<and>
   (sa = or_string (case seed of None \<Rightarrow> None | Some n \<Rightarrow> abstract (data n))
           ''No abstract available for seed paper.'' \<and>
    ta = or_string (abstract (data sel)) ''No abstract available.'' \<and>
    summarize_endpoint net (fst (summarizeConnection (summarize_endpoint net) sa ta)) =
      Response status (Some r) \<and>
    ok status \<longrightarrow>
      requests (snd (handleExplain net sel seed (st, fx))) =
        requests fx @ [fst (summarizeConnection (summarize_endpoint net) sa ta)] \<and>
      explanation (fst (handleExplain net sel seed (st, fx))) = Some (summary r) \<and>
      (\<not> isSeed (data sel) \<longrightarrow>
         explanation_text sel (fst (handleExplain net sel seed (st, fx))) = summary r))"
proof (intro conjI impI)
  show "fst (summarizeConnection fetch a b) =
     \<lparr>request_method = POST,
      url = API_BASE_URL @ ''/summarize_connection'',
      headers = [(''Content-Type'', ''application/json'')],
      body = Some (JSON_stringify [(''source_abstract'', a), (''target_abstract'', b)])\<rparr>"
    by (simp add: summarizeConnection_def Let_def)
next
  show "JSON_read_object (JSON_stringify [(''source_abstract'', a), (''target_abstract'', b)]) =
     Some [(''source_abstract'', a), (''target_abstract'', b)]"
    by (rule JSON_read_object_stringify)
next
  assume h: "sa = or_string (case seed of None \<Rightarrow> None | Some n \<Rightarrow> abstract (data n))
           ''No abstract available for seed paper.'' \<and>
    ta = or_string (abstract (data sel)) ''No abstract available.'' \<and>
    summarize_endpoint net (fst (summarizeConnection (summarize_endpoint net) sa ta)) =
      Response status (Some r) \<and>
    ok status"
  then have returned: "snd (summarizeConnection (summarize_endpoint net) sa ta) = Inr r"
    by (auto simp: summarizeConnection_def Let_def)
  from h returned show
    "requests (snd (handleExplain net sel seed (st, fx))) =
        requests fx @ [fst (summarizeConnection (summarize_endpoint net) sa ta)]"
    "explanation (fst (handleExplain net sel seed (st, fx))) = Some (summary r)"
    by (simp_all add: handleExplain_def Let_def split_beta)
  then show "explanation_text sel (fst (handleExplain net sel seed (st, fx))) = summary r"
    if "\<not> isSeed (data sel)"
    using that by (simp add: explanation_text_def)
qed

text \<open>
  The abstract of the sample holds a quote, a backslash, a line feed and a control
  character; the endpoint of the sample answers by the body of the request.
\<close>

theorem summarizeConnection_request_and_display_witness:
  \<open>body (fst (summarizeConnection (summarize_endpoint explaining_network)
                ''We present GAT.'' quoting_text)) =
     Some (''{"source_abstract":"We present GAT.","target_abstract":"a'' @
           [CHR 0x5C, CHR 0x22, CHR 0x5C, CHR 0x5C, CHR 0x5C, CHR ''n'', CHR 0x5C] @
           ''u0001z"}'') \<and>
   JSON_read_object
     (''{"source_abstract":"We present GAT.","target_abstract":"a'' @
      [CHR 0x5C, CHR 0x22, CHR 0x5C, CHR 0x5C, CHR 0x5C, CHR ''n'', CHR 0x5C] @
      ''u0001z"}'') =
     Some [(''source_abstract'', ''We present GAT.''), (''target_abstract'', quoting_text)] \<and>
   requests (snd (handleExplain explaining_network quoting_node (Some sample_node)
                    (initial_sidebar, no_effects))) =
     [fst (summarizeConnection (summarize_endpoint explaining_network)
             ''We present GAT.'' quoting_text)] \<and>
   explanation (fst (handleExplain explaining_network quoting_node (Some sample_node)
                       (initial_sidebar, no_effects))) =
     Some ''Both build on W3.'' \<and>
   explanation_text quoting_node
     (fst (handleExplain explaining_network quoting_node (Some sample_node)
             (initial_sidebar, no_effects))) =
     ''Both build on W3.''\<close>
  using summarizeConnection_request_and_display
    [where fetch = "summarize_endpoint explaining_network" and a = "''We present GAT.''"
       and b = quoting_text and sa = "''We present GAT.''" and ta = quoting_text
       and net = explaining_network and status = 200
       and r = "\<lparr>summary = ''Both build on W3.''\<rparr>"
       and sel = quoting_node and seed = "Some sample_node" and st = initial_sidebar
       and fx = no_effects]
  by (simp add: explaining_network_def ok_def sample_node_def quoting_node_def quoting_text_def
        or_string_def summarizeConnection_def Let_def
        JSON_stringify_def json_quote_def json_escape_def hex_lower_def no_effects_def)

section \<open>Properties of the engine as specified\<close>

subsection \<open>Bibliographic coupling\<close>

text \<open>The score is a weight between 0 and 1.\<close>

lemma coupling_range: "0 \<le> coupling a b \<and> coupling a b \<le> 1"
proof -
  have "fcard (referenceIds a |\<inter>| referenceIds b) \<le>
        min (fcard (referenceIds a)) (fcard (referenceIds b))"
    by (simp add: fcard_mono)
  then show ?thesis
    by (auto simp: coupling_def divide_le_eq_1 simp flip: of_nat_min)
qed

text \<open>
  Claim C5. For two papers with non-empty reference sets the coupling score is the size
  of the intersection of the two sets divided by the size of the smaller one; it is 0
  when either set is empty; and it is symmetric.
\<close>

theorem coupling_symmetric:
  "(referenceIds a \<noteq> {||} \<and> referenceIds b \<noteq> {||} \<longrightarrow>
      coupling a b = of_nat (fcard (referenceIds a |\<inter>| referenceIds b)) /
                     of_nat (min (fcard (referenceIds a)) (fcard (referenceIds b)))) \<and>
   (referenceIds a = {||} \<or> referenceIds b = {||} \<longrightarrow> coupling a b = 0) \<and>
   coupling a b = coupling b a"
  by (auto simp: coupling_def finter_commute min.commute)

theorem coupling_symmetric_witness:
  "coupling seed_paper paper_D = 1 \<and> coupling paper_D seed_paper = 1 \<and>
   coupling seed_paper \<lparr>paper_id = ''F'', referenceIds = {||}\<rparr> = 0"
  using coupling_symmetric [of seed_paper paper_D]
    coupling_symmetric [of seed_paper "\<lparr>paper_id = ''F'', referenceIds = {||}\<rparr>"]
  by (simp add: seed_paper_def paper_D_def fcard_finsert_if)

subsection \<open>The layout fits the viewport\<close>


lemma canvas_dimension_given: "0 < v \<Longrightarrow> canvas_dimension (Some v) = v"
  by (simp add: canvas_dimension_def)


lemma ring_radius_inner_smaller:
  assumes "0 \<le> min width height" and "j \<le> k"
  shows "ring_radius width height ringCount j \<le> ring_radius width height ringCount k"
  using assms by (simp add: ring_radius_def divide_right_mono mult_left_mono)







end
